theory Spec2Isabelle
  imports Main "HOL-Library.Multiset" "HOL-Library.AList"
begin

section \<open>Run-time panics and returned errors\<close>

text \<open>
  A Go function of this package either returns (possibly with a non-nil \<open>error\<close> value) or
  panics. A panic unwinds the whole call, so it is the left summand of every result type;
  a returned \<open>error\<close> is a value of its own datatype. The messages of the source are
  kept as constructors carrying what the message names.
\<close>

section \<open>Tokens (token.go)\<close>

datatype Kind =
  KindIdent | KindInt | KindFloat | KindString | KindRawString | KindChar
  | KindEOF | KindOther | KindMatch

text \<open>
  The token classes of Go's \<open>text/scanner\<close>, which \<open>goToken.tok\<close> holds; any other
  rune is the character itself.
\<close>

definition scanner_EOF :: int where "scanner_EOF = - 1"
definition scanner_Ident :: int where "scanner_Ident = - 2"
definition scanner_Int :: int where "scanner_Int = - 3"
definition scanner_Float :: int where "scanner_Float = - 4"
definition scanner_Char :: int where "scanner_Char = - 5"
definition scanner_String :: int where "scanner_String = - 6"
definition scanner_RawString :: int where "scanner_RawString = - 7"

lemmas scanner_defs =
  scanner_EOF_def scanner_Ident_def scanner_Int_def scanner_Float_def
  scanner_Char_def scanner_String_def scanner_RawString_def

text \<open>\<open>goToken\<close>: the field \<open>text\<close> is named \<open>tokText\<close> here, \<open>pos\<close> is kept as its line and column.\<close>

record goToken =
  tok :: int
  tokText :: string
  pos_Line :: int
  pos_Column :: int

datatype panic =
  IndexOutOfRange
  | SliceBoundsOutOfRange
  | NilDereference
  | CouldntConvertToken goToken
  | CorruptedSymbolStack
  | BuilderPanic

definition IsEOF :: "goToken \<Rightarrow> bool" where "IsEOF t = (tok t = scanner_EOF)"
definition IsIdent :: "goToken \<Rightarrow> bool" where "IsIdent t = (tok t = scanner_Ident)"
definition IsInt :: "goToken \<Rightarrow> bool" where "IsInt t = (tok t = scanner_Int)"
definition IsFloat :: "goToken \<Rightarrow> bool" where "IsFloat t = (tok t = scanner_Float)"
definition IsString :: "goToken \<Rightarrow> bool" where "IsString t = (tok t = scanner_String)"
definition IsRawString :: "goToken \<Rightarrow> bool" where "IsRawString t = (tok t = scanner_RawString)"
definition IsChar :: "goToken \<Rightarrow> bool" where "IsChar t = (tok t = scanner_Char)"

lemmas Is_defs =
  IsEOF_def IsIdent_def IsInt_def IsFloat_def IsString_def IsRawString_def IsChar_def

definition isQuoted :: "goToken \<Rightarrow> bool" where
  "isQuoted t = (IsString t \<or> IsRawString t \<or> IsChar t)"

text \<open>
  \<open>Text\<close>: the slice expression \<open>t.text[1 : len(t.text)-1]\<close> panics when the text has
  fewer than two bytes.
\<close>

definition Text :: "goToken \<Rightarrow> panic + string" where
  "Text t =
     (if isQuoted t then
        (if length (tokText t) < 2 then Inl SliceBoundsOutOfRange
         else Inr (take (length (tokText t) - 2) (drop 1 (tokText t))))
      else Inr (tokText t))"

definition Kind :: "goToken \<Rightarrow> Kind" where
  "Kind t =
     (if IsIdent t then KindIdent
      else if IsInt t then KindInt
      else if IsFloat t then KindFloat
      else if IsString t then KindString
      else if IsRawString t then KindRawString
      else if IsChar t then KindChar
      else if IsEOF t then KindEOF
      else KindOther)"

section \<open>Symbols (parser.go)\<close>

datatype NonTerminal = NonTerminal (Name: string)

datatype Terminal = EOF | Ident | Match string

datatype Symbol = SymN NonTerminal | SymT Terminal

text \<open>
  \<open>terminalFromToken\<close>. The panic message is built from \<open>tok.String()\<close>, which calls
  \<open>Text\<close> and so may itself panic first.
\<close>

definition terminalFromToken :: "goToken \<Rightarrow> panic + (Terminal \<times> bool)" where
  "terminalFromToken t =
     (if IsIdent t then
        (case Text t of Inl p \<Rightarrow> Inl p | Inr s \<Rightarrow> Inr (Match s, True))
      else if IsEOF t then Inr (EOF, False)
      else if Kind t = KindOther then
        (case Text t of Inl p \<Rightarrow> Inl p | Inr s \<Rightarrow> Inr (Match s, False))
      else
        (case Text t of Inl p \<Rightarrow> Inl p | Inr s \<Rightarrow> Inl (CouldntConvertToken t)))"

section \<open>Rules, items and states\<close>

text \<open>
  An attribute value (\<open>interface{}\<close>) is a token pushed by a shift or a value made by a
  builder. A builder is user code and may panic.
\<close>

datatype 'v attr = AToken goToken | AValue 'v

record 'v Rule =
  Lhs :: string
  Rhs :: "Symbol list"
  Builder :: "'v attr list \<Rightarrow> panic + 'v attr"

datatype item = Item (rule: nat) (dot: nat)

definition less :: "item \<Rightarrow> item \<Rightarrow> bool" where
  "less i1 i2 =
     (if rule i1 < rule i2 then True
      else if rule i1 > rule i2 then False
      else dot i1 < dot i2)"

datatype state = State (items: "item list")

text \<open>
  \<open>sort.Slice\<close> with \<open>less\<close>: \<open>addItem\<close> calls it on a slice without duplicates, where a
  strict total order leaves one sorted arrangement. It is modelled as insertion sort.
\<close>

fun insertItem :: "item \<Rightarrow> item list \<Rightarrow> item list" where
  "insertItem x [] = [x]"
| "insertItem x (y # ys) = (if less x y then x # y # ys else y # insertItem x ys)"

definition sortSlice :: "item list \<Rightarrow> item list" where
  "sortSlice xs = foldr insertItem xs []"

definition addItem :: "item \<Rightarrow> state \<Rightarrow> state \<times> bool" where
  "addItem it s =
     (if it \<in> set (items s) then (s, False)
      else (State (sortSlice (items s @ [it])), True))"

fun CompareLoop :: "item list \<Rightarrow> item list \<Rightarrow> int" where
  "CompareLoop [] ys = 0"
| "CompareLoop (x # xs) [] = 0"
| "CompareLoop (x # xs) (y # ys) =
     (if less x y then - 1 else if less y x then 1 else CompareLoop xs ys)"

definition Compare :: "state \<Rightarrow> state \<Rightarrow> int" where
  "Compare s1 s2 =
     (if length (items s1) < length (items s2) then - 1
      else if length (items s1) > length (items s2) then 1
      else CompareLoop (items s1) (items s2))"

section \<open>Closure\<close>

definition ruleAt :: "'v Rule list \<Rightarrow> nat \<Rightarrow> panic + 'v Rule" where
  "ruleAt rules n = (if n < length rules then Inr (rules ! n) else Inl IndexOutOfRange)"

definition rulesWithLhs :: "'v Rule list \<Rightarrow> string \<Rightarrow> nat list" where
  "rulesWithLhs rules lhs = filter (\<lambda>n. Lhs (rules ! n) = lhs) [0..<length rules]"

text \<open>
  One pass of the inner \<open>for _, it := range s.items\<close> of \<open>closeState\<close>: it threads the
  \<open>processed\<close> set and the collected \<open>newItems\<close>.
\<close>

fun closePass ::
  "'v Rule list \<Rightarrow> item list \<Rightarrow> item set \<Rightarrow> item list \<Rightarrow> panic + (item set \<times> item list)"
where
  "closePass rules [] processed newItems = Inr (processed, newItems)"
| "closePass rules (it # its) processed newItems =
     (if it \<in> processed then closePass rules its processed newItems
      else
        (case ruleAt rules (rule it) of
           Inl p \<Rightarrow> Inl p
         | Inr r \<Rightarrow>
             (if dot it < length (Rhs r) then
                (case Rhs r ! dot it of
                   SymN nt \<Rightarrow>
                     closePass rules its (insert it processed)
                       (newItems @ map (\<lambda>n. Item n 0) (rulesWithLhs rules (Name nt)))
                 | SymT t \<Rightarrow> closePass rules its (insert it processed) newItems)
              else closePass rules its (insert it processed) newItems)))"

fun addItems :: "item list \<Rightarrow> state \<Rightarrow> bool \<Rightarrow> state \<times> bool" where
  "addItems [] s added = (s, added)"
| "addItems (it # its) s added =
     (case addItem it s of (s', b) \<Rightarrow> addItems its s' (if b then True else added))"

text \<open>
  The outer \<open>for\<close> of \<open>closeState\<close> runs until a pass adds no item. Every item it adds is
  \<open>Item n 0\<close> for a rule index \<open>n\<close>, so the number of such items still missing from the
  state decreases with every pass that adds one: the loop terminates. The lemmas before the
  definition are what the termination proof needs.
\<close>

lemma set_insertItem: "set (insertItem x ys) = insert x (set ys)"
  by (induction ys) auto

lemma set_sortSlice: "set (sortSlice xs) = set xs"
  unfolding sortSlice_def by (induction xs) (auto simp: set_insertItem)

lemma addItem_set: "addItem it s = (s', b) \<Longrightarrow> set (items s') = insert it (set (items s))"
  by (auto simp: addItem_def set_sortSlice split: if_splits)

lemma addItem_added: "addItem it s = (s', b) \<Longrightarrow> b = (it \<notin> set (items s))"
  by (auto simp: addItem_def split: if_splits)

lemma addItems_set: "addItems its s b = (s', b') \<Longrightarrow> set (items s') = set (items s) \<union> set its"
proof (induction its arbitrary: s b)
  case Nil
  then show ?case by simp
next
  case (Cons it its)
  obtain s1 b1 where a: "addItem it s = (s1, b1)" by (cases "addItem it s")
  with Cons.prems have "addItems its s1 (if b1 then True else b) = (s', b')" by simp
  from Cons.IH[OF this] addItem_set[OF a] show ?case by auto
qed

lemma addItems_added:
  "addItems its s b = (s', b') \<Longrightarrow> b' = (b \<or> \<not> set its \<subseteq> set (items s))"
proof (induction its arbitrary: s b)
  case Nil
  then show ?case by simp
next
  case (Cons it its)
  obtain s1 b1 where a: "addItem it s = (s1, b1)" by (cases "addItem it s")
  with Cons.prems have r: "addItems its s1 (if b1 then True else b) = (s', b')" by simp
  from Cons.IH[OF r] addItem_set[OF a] addItem_added[OF a] show ?case by auto
qed

lemma set_rulesWithLhs: "set (rulesWithLhs rules lhs) \<subseteq> {..<length rules}"
  by (auto simp: rulesWithLhs_def)

lemma closePass_new:
  "closePass rules its P new = Inr (P', new') \<Longrightarrow>
   set new' \<subseteq> set new \<union> (\<lambda>n. Item n 0) ` {..<length rules}"
proof (induction its arbitrary: P new)
  case Nil
  then show ?case by auto
next
  case (Cons it its)
  show ?case
  proof (cases "it \<in> P")
    case True
    with Cons show ?thesis by simp
  next
    case False
    with Cons.prems obtain r where r: "ruleAt rules (rule it) = Inr r"
      by (auto split: sum.splits)
    show ?thesis
    proof (cases "dot it < length (Rhs r)")
      case d: True
      show ?thesis
      proof (cases "Rhs r ! dot it")
        case (SymN nt)
        with Cons.prems False r d have
          "closePass rules its (insert it P)
             (new @ map (\<lambda>n. Item n 0) (rulesWithLhs rules (Name nt))) = Inr (P', new')"
          by simp
        from Cons.IH[OF this] set_rulesWithLhs[of rules "Name nt"] show ?thesis by auto
      next
        case (SymT t)
        with Cons.prems False r d have "closePass rules its (insert it P) new = Inr (P', new')"
          by simp
        from Cons.IH[OF this] show ?thesis .
      qed
    next
      case d: False
      with Cons.prems False r have "closePass rules its (insert it P) new = Inr (P', new')"
        by simp
      from Cons.IH[OF this] show ?thesis .
    qed
  qed
qed

function closeLoop :: "'v Rule list \<Rightarrow> item set \<Rightarrow> state \<Rightarrow> panic + state" where
  "closeLoop rules processed s =
     (case closePass rules (items s) processed [] of
        Inl p \<Rightarrow> Inl p
      | Inr (processed', newItems) \<Rightarrow>
          (case addItems newItems s False of
             (s', added) \<Rightarrow> if added then closeLoop rules processed' s' else Inr s'))"
  by pat_completeness auto
termination
proof (relation "measure (\<lambda>(rules, processed, s).
          card ((\<lambda>n. Item n 0) ` {..<length rules} - set (items s)))")
  show "wf (measure (\<lambda>(rules :: 'v Rule list, processed :: item set, s).
          card ((\<lambda>n. Item n 0) ` {..<length rules} - set (items s))))"
    by simp
next
  fix rules :: "'v Rule list" and processed s x2 x y xa ya
  assume a: "closePass rules (items s) processed [] = Inr x2" "(x, y) = x2"
    "(xa, ya) = addItems y s False" "ya"
  let ?U = "(\<lambda>n. Item n 0) ` {..<length rules}"
  from a have cp: "closePass rules (items s) processed [] = Inr (x, y)" by simp
  from a have ai: "addItems y s False = (xa, True)" by simp
  from closePass_new[OF cp] have sub: "set y \<subseteq> ?U" by simp
  from addItems_set[OF ai] have st: "set (items xa) = set (items s) \<union> set y" .
  from addItems_added[OF ai] obtain z where z: "z \<in> set y" "z \<notin> set (items s)" by auto
  have "?U - set (items xa) \<subset> ?U - set (items s)"
    using st sub z by auto
  then have "card (?U - set (items xa)) < card (?U - set (items s))"
    by (intro psubset_card_mono) auto
  then show "((rules, x, xa), rules, processed, s) \<in> measure (\<lambda>(rules, processed, s).
          card ((\<lambda>n. Item n 0) ` {..<length rules} - set (items s)))"
    by simp
qed

definition closeState :: "'v Rule list \<Rightarrow> state \<Rightarrow> panic + state" where
  "closeState rules s = closeLoop rules {} s"

declare closeLoop.simps [simp del]

section \<open>Transitions of a state\<close>

fun reductionsLoop :: "'v Rule list \<Rightarrow> item list \<Rightarrow> panic + 'v Rule list" where
  "reductionsLoop rules [] = Inr []"
| "reductionsLoop rules (it # its) =
     (case ruleAt rules (rule it) of
        Inl p \<Rightarrow> Inl p
      | Inr r \<Rightarrow>
          (case reductionsLoop rules its of
             Inl p \<Rightarrow> Inl p
           | Inr rs \<Rightarrow> Inr (if dot it = length (Rhs r) then r # rs else rs)))"

definition reductions :: "'v Rule list \<Rightarrow> state \<Rightarrow> panic + 'v Rule list" where
  "reductions rules s = reductionsLoop rules (items s)"

text \<open>
  \<open>stateTerminals\<close> and \<open>stateNonTerminals\<close> are the same code up to the type assertion
  on the symbol after the dot (\<open>.(Terminal)\<close> or \<open>.(NonTerminal)\<close>), which is the
  parameter \<open>sel\<close> here. The Go map \<open>m\<close> is an association list with one entry per key, in
  the order in which the keys were first met; the order in which Go ranges over the map is a
  separate parameter of \<open>addState\<close> below.
\<close>

definition asTerminal :: "Symbol \<Rightarrow> Terminal option" where
  "asTerminal x = (case x of SymT t \<Rightarrow> Some t | SymN nt \<Rightarrow> None)"

definition asNonTerminal :: "Symbol \<Rightarrow> NonTerminal option" where
  "asNonTerminal x = (case x of SymN nt \<Rightarrow> Some nt | SymT t \<Rightarrow> None)"

fun advanceLoop ::
  "(Symbol \<Rightarrow> 'k option) \<Rightarrow> 'v Rule list \<Rightarrow> item list \<Rightarrow> ('k \<times> state) list
     \<Rightarrow> panic + ('k \<times> state) list"
where
  "advanceLoop sel rules [] m = Inr m"
| "advanceLoop sel rules (it # its) m =
     (case ruleAt rules (rule it) of
        Inl p \<Rightarrow> Inl p
      | Inr r \<Rightarrow>
          (if dot it < length (Rhs r) then
             (case sel (Rhs r ! dot it) of
                Some k \<Rightarrow>
                  advanceLoop sel rules its
                    (AList.update k
                       (fst (addItem (Item (rule it) (dot it + 1))
                          (case map_of m k of None \<Rightarrow> State [] | Some s \<Rightarrow> s)))
                       m)
              | None \<Rightarrow> advanceLoop sel rules its m)
           else advanceLoop sel rules its m))"

fun closeAll :: "'v Rule list \<Rightarrow> ('k \<times> state) list \<Rightarrow> panic + ('k \<times> state) list" where
  "closeAll rules [] = Inr []"
| "closeAll rules ((k, s) # m) =
     (case closeState rules s of
        Inl p \<Rightarrow> Inl p
      | Inr s' \<Rightarrow>
          (case closeAll rules m of
             Inl p \<Rightarrow> Inl p
           | Inr m' \<Rightarrow> Inr ((k, s') # m')))"

definition stateSymbols ::
  "(Symbol \<Rightarrow> 'k option) \<Rightarrow> 'v Rule list \<Rightarrow> state \<Rightarrow> panic + ('k \<times> state) list"
where
  "stateSymbols sel rules s =
     (case advanceLoop sel rules (items s) [] of
        Inl p \<Rightarrow> Inl p
      | Inr m \<Rightarrow> closeAll rules m)"

definition stateTerminals :: "'v Rule list \<Rightarrow> state \<Rightarrow> panic + (Terminal \<times> state) list" where
  "stateTerminals = stateSymbols asTerminal"

definition stateNonTerminals ::
  "'v Rule list \<Rightarrow> state \<Rightarrow> panic + (NonTerminal \<times> state) list"
where
  "stateNonTerminals = stateSymbols asNonTerminal"

section \<open>The grammar and its automaton\<close>

datatype 'v action = stop | shift state | reduce "'v Rule"

datatype error =
  TooManyReductions state
  | MultipleShifts Terminal state
  | NoActions state
  | NoActionOver Terminal state
  | NoGotos state
  | NoGotoOver string state

text \<open>
  The two red-black trees of the grammar are keyed by states under \<open>Compare\<close>, which is \<open>0\<close>
  exactly on equal item sequences (lemma \<open>Compare_eq_0\<close> below), so they are maps from
  states. \<open>initState\<close> is a pointer, \<open>nil\<close> until \<open>Build\<close> sets it.
\<close>

record 'v Grammar =
  Rules :: "'v Rule list"
  actions :: "state \<rightharpoonup> (Terminal \<rightharpoonup> 'v action)"
  gotos :: "state \<rightharpoonup> (NonTerminal \<rightharpoonup> state)"
  nonterminals :: "NonTerminal set"
  terminals :: "Terminal set"
  initState :: "state option"

definition NewGrammar :: "'v Rule list \<Rightarrow> 'v Grammar" where
  "NewGrammar rules =
     \<lparr>Rules = rules, actions = Map.empty, gotos = Map.empty,
      nonterminals = {}, terminals = {}, initState = None\<rparr>"

text \<open>
  Go ranges over a map in an unspecified order. \<open>addState\<close> ranges over the maps of
  \<open>stateTerminals(s)\<close> and \<open>stateNonTerminals(s)\<close>, and it does so at most once for each
  state \<open>s\<close> (a registered state returns at once), so one order for each state covers every
  run: \<open>rangeT mo s m\<close> is the order in which the entries \<open>m\<close> of state \<open>s\<close> are visited.
\<close>

record mapOrder =
  rangeT :: "state \<Rightarrow> (Terminal \<times> state) list \<Rightarrow> (Terminal \<times> state) list"
  rangeN :: "state \<Rightarrow> (NonTerminal \<times> state) list \<Rightarrow> (NonTerminal \<times> state) list"

definition validOrder :: "mapOrder \<Rightarrow> bool" where
  "validOrder mo =
     ((\<forall>s m. mset (rangeT mo s m) = mset m) \<and> (\<forall>s m. mset (rangeN mo s m) = mset m))"

definition insertionOrder :: mapOrder where
  "insertionOrder = \<lparr>rangeT = (\<lambda>s m. m), rangeN = (\<lambda>s m. m)\<rparr>"

text \<open>
  \<open>addState\<close> returns an \<open>error\<close> and leaves its effect in the grammar, so its model returns
  the grammar with the error. The recursion is bounded by fuel: the outer \<open>option\<close> is
  \<open>None\<close> when the nesting of calls exceeds it.
\<close>

type_synonym 'v built = "(panic + 'v Grammar \<times> error option) option"

definition isShift :: "'v action \<Rightarrow> bool" where
  "isShift act = (case act of shift s \<Rightarrow> True | stop \<Rightarrow> False | reduce r \<Rightarrow> False)"

text \<open>
  The loop \<open>for t, s2 := range gr.stateTerminals(s)\<close>. The map \<open>a\<close> is the object stored in
  the tree under \<open>s\<close>, so an assignment to \<open>a[t]\<close> shows in the tree; \<open>rec\<close> is the
  recursive call, whose returned error the source drops.
\<close>

fun shiftLoop ::
  "('v Grammar \<Rightarrow> state \<Rightarrow> 'v built) \<Rightarrow> 'v Grammar \<Rightarrow> state \<Rightarrow> (Terminal \<rightharpoonup> 'v action)
     \<Rightarrow> (Terminal \<times> state) list \<Rightarrow> 'v built"
where
  "shiftLoop rec gr s a [] = Some (Inr (gr, None))"
| "shiftLoop rec gr s a ((t, s2) # m) =
     (if (case a t of None \<Rightarrow> False | Some act \<Rightarrow> isShift act)
      then Some (Inr (gr, Some (MultipleShifts t s)))
      else
        (let a' = a(t \<mapsto> shift s2);
             gr' = gr\<lparr>actions := (actions gr)(s \<mapsto> a')\<rparr>
         in case rec gr' s2 of
              None \<Rightarrow> None
            | Some (Inl p) \<Rightarrow> Some (Inl p)
            | Some (Inr (gr'', e)) \<Rightarrow> shiftLoop rec gr'' s a' m))"

fun gotoLoop ::
  "('v Grammar \<Rightarrow> state \<Rightarrow> 'v built) \<Rightarrow> 'v Grammar \<Rightarrow> state \<Rightarrow> (NonTerminal \<rightharpoonup> state)
     \<Rightarrow> (NonTerminal \<times> state) list \<Rightarrow> 'v built"
where
  "gotoLoop rec gr s g [] = Some (Inr (gr, None))"
| "gotoLoop rec gr s g ((nt, s2) # m) =
     (let g' = g(nt \<mapsto> s2);
          gr' = gr\<lparr>gotos := (gotos gr)(s \<mapsto> g')\<rparr>
      in case rec gr' s2 of
           None \<Rightarrow> None
         | Some (Inl p) \<Rightarrow> Some (Inl p)
         | Some (Inr (gr'', e)) \<Rightarrow> gotoLoop rec gr'' s g' m)"

primrec addState :: "mapOrder \<Rightarrow> nat \<Rightarrow> 'v Grammar \<Rightarrow> state \<Rightarrow> 'v built" where
  "addState mo 0 gr s = None"
| "addState mo (Suc n) gr s =
     (case actions gr s of
        Some a0 \<Rightarrow> Some (Inr (gr, None))
      | None \<Rightarrow>
          (let gr1 = gr\<lparr>actions := (actions gr)(s \<mapsto> Map.empty)\<rparr> in
           case reductions (Rules gr1) s of
             Inl p \<Rightarrow> Some (Inl p)
           | Inr rs \<Rightarrow>
               (if length rs > 1 then Some (Inr (gr1, Some (TooManyReductions s)))
                else
                  (let a = (if length rs = 1
                            then (\<lambda>t. if t \<in> terminals gr1 then Some (reduce (hd rs)) else None)
                            else Map.empty);
                       gr2 = gr1\<lparr>actions := (actions gr1)(s \<mapsto> a)\<rparr>
                   in case stateTerminals (Rules gr2) s of
                        Inl p \<Rightarrow> Some (Inl p)
                      | Inr mt \<Rightarrow>
                          (case shiftLoop (addState mo n) gr2 s a (rangeT mo s mt) of
                             None \<Rightarrow> None
                           | Some (Inl p) \<Rightarrow> Some (Inl p)
                           | Some (Inr (gr3, Some e)) \<Rightarrow> Some (Inr (gr3, Some e))
                           | Some (Inr (gr3, None)) \<Rightarrow>
                               (let gr4 = gr3\<lparr>gotos := (gotos gr3)(s \<mapsto> Map.empty)\<rparr> in
                                case stateNonTerminals (Rules gr4) s of
                                  Inl p \<Rightarrow> Some (Inl p)
                                | Inr mn \<Rightarrow>
                                    gotoLoop (addState mo n) gr4 s Map.empty
                                      (rangeN mo s mn)))))))"

definition scanSymbol :: "'v Grammar \<Rightarrow> Symbol \<Rightarrow> 'v Grammar" where
  "scanSymbol gr x =
     (case x of
        SymN nt \<Rightarrow> gr\<lparr>nonterminals := insert nt (nonterminals gr)\<rparr>
      | SymT t \<Rightarrow> gr\<lparr>terminals := insert t (terminals gr)\<rparr>)"

definition Build :: "mapOrder \<Rightarrow> nat \<Rightarrow> 'v Grammar \<Rightarrow> 'v built" where
  "Build mo n gr =
     (let gr1 = foldl (\<lambda>g r. foldl scanSymbol g (Rhs r)) gr (Rules gr);
          gr2 = gr1\<lparr>terminals := insert EOF (terminals gr1)\<rparr>;
          s = State (map (\<lambda>r. Item r 0) (rulesWithLhs (Rules gr2) ''0''))
      in case closeState (Rules gr2) s of
           Inl p \<Rightarrow> Some (Inl p)
         | Inr s' \<Rightarrow> addState mo n (gr2\<lparr>initState := Some s'\<rparr>) s')"

section \<open>The parsing engine\<close>

text \<open>
  The local variables of \<open>Parse\<close>; \<open>cursor\<close> is the source's \<open>i\<close>. The grammar is carried
  beside them, so that what a call does to it can be stated.
\<close>

record 'v locals =
  stack :: "'v attr list"
  st :: state
  states :: "state list"
  cursor :: nat

datatype ('c, 'r) flow = Continue 'c | Return 'r

type_synonym 'v parsed = "panic + (error + 'v attr)"

text \<open>The \<open>switch\<close> on the action found.\<close>

definition perform ::
  "'v Grammar \<Rightarrow> 'v locals \<Rightarrow> goToken \<Rightarrow> 'v action
     \<Rightarrow> ('v Grammar \<times> 'v locals, 'v Grammar \<times> 'v parsed) flow"
where
  "perform gr c tk act =
     (case act of
        stop \<Rightarrow>
          (if stack c = [] then Return (gr, Inl IndexOutOfRange)
           else Return (gr, Inr (Inr (last (stack c)))))
      | shift s2 \<Rightarrow>
          Continue (gr, c\<lparr>stack := stack c @ [AToken tk], st := s2,
                          states := states c @ [s2], cursor := cursor c + 1\<rparr>)
      | reduce r \<Rightarrow>
          (let l = length (Rhs r) in
           if length (stack c) < l then Return (gr, Inl SliceBoundsOutOfRange)
           else
             (case Builder r (drop (length (stack c) - l) (stack c)) of
                Inl p \<Rightarrow> Return (gr, Inl p)
              | Inr v \<Rightarrow>
                  (let stack' = take (length (stack c) - l) (stack c) @ [v] in
                   if Lhs r = ''0'' then
                     (if length stack' \<noteq> 1 then Return (gr, Inl CorruptedSymbolStack)
                      else Return (gr, Inr (Inr (last stack'))))
                   else if length (states c) < l then Return (gr, Inl SliceBoundsOutOfRange)
                   else
                     (let states' = take (length (states c) - l) (states c) in
                      if states' = [] then Return (gr, Inl IndexOutOfRange)
                      else
                        (case gotos gr (last states') of
                           None \<Rightarrow> Return (gr, Inr (Inl (NoGotos (st c))))
                         | Some gt \<Rightarrow>
                             (case gt (NonTerminal (Lhs r)) of
                                None \<Rightarrow> Return (gr, Inr (Inl (NoGotoOver (Lhs r) (st c))))
                              | Some st2 \<Rightarrow>
                                  Continue (gr, c\<lparr>stack := stack', st := st2,
                                                  states := states' @ [st2]\<rparr>))))))))"

text \<open>
  The action looked up for the classified token: \<open>as[t]\<close>, and \<open>as[Ident{}]\<close> when that
  is absent and the token is an identifier.
\<close>

definition findAction :: "(Terminal \<rightharpoonup> 'v action) \<Rightarrow> Terminal \<Rightarrow> bool \<Rightarrow> 'v action option" where
  "findAction as t ident =
     (case as t of
        Some act \<Rightarrow> Some act
      | None \<Rightarrow> if ident then as Ident else None)"

text \<open>One iteration of the \<open>for\<close> loop of \<open>Parse\<close>.\<close>

definition step ::
  "goToken list \<Rightarrow> 'v Grammar \<times> 'v locals
     \<Rightarrow> ('v Grammar \<times> 'v locals, 'v Grammar \<times> 'v parsed) flow"
where
  "step tokens gc =
     (case gc of (gr, c) \<Rightarrow>
        if length tokens \<le> cursor c then Return (gr, Inl IndexOutOfRange)
        else
          (let tk = tokens ! cursor c in
           case actions gr (st c) of
             None \<Rightarrow> Return (gr, Inr (Inl (NoActions (st c))))
           | Some as \<Rightarrow>
               (case terminalFromToken tk of
                  Inl p \<Rightarrow> Return (gr, Inl p)
                | Inr (t, ident) \<Rightarrow>
                    (case findAction as t ident of
                       None \<Rightarrow> Return (gr, Inr (Inl (NoActionOver t (st c))))
                     | Some act \<Rightarrow> perform gr c tk act))))"

partial_function (option) parseLoop ::
  "goToken list \<Rightarrow> 'v Grammar \<times> 'v locals \<Rightarrow> ('v Grammar \<times> 'v parsed) option"
where
  "parseLoop tokens gc =
     (case step tokens gc of
        Return r \<Rightarrow> Some r
      | Continue gc' \<Rightarrow> parseLoop tokens gc')"

declare parseLoop.simps [code]

text \<open>
  \<open>Parse\<close>. With \<open>initState\<close> still \<open>nil\<close> (no \<open>Build\<close> yet) the first iteration reads
  \<open>tokens[0]\<close> and then dereferences the nil state.
\<close>

definition Parse :: "'v Grammar \<Rightarrow> goToken list \<Rightarrow> ('v Grammar \<times> 'v parsed) option" where
  "Parse gr tokens =
     (case initState gr of
        None \<Rightarrow> Some (gr, Inl (if tokens = [] then IndexOutOfRange else NilDereference))
      | Some s0 \<Rightarrow>
          parseLoop tokens (gr, \<lparr>stack = [], st = s0, states = [s0], cursor = 0\<rparr>))"

section \<open>Observing a run\<close>

text \<open>
  \<open>dispatched\<close> is the action on which an iteration of \<open>Parse\<close> switches, if it gets that
  far; \<open>iter n\<close> runs \<open>n\<close> iterations; \<open>built\<close> is the grammar object after \<open>Build\<close> has
  returned (with or without an error).
\<close>

definition dispatched :: "goToken list \<Rightarrow> 'v Grammar \<times> 'v locals \<Rightarrow> 'v action option" where
  "dispatched tokens gc =
     (case gc of (gr, c) \<Rightarrow>
        if length tokens \<le> cursor c then None
        else
          (case actions gr (st c) of
             None \<Rightarrow> None
           | Some as \<Rightarrow>
               (case terminalFromToken (tokens ! cursor c) of
                  Inl p \<Rightarrow> None
                | Inr (t, ident) \<Rightarrow> findAction as t ident)))"

fun iter ::
  "nat \<Rightarrow> goToken list \<Rightarrow> 'v Grammar \<times> 'v locals
     \<Rightarrow> ('v Grammar \<times> 'v locals, 'v Grammar \<times> 'v parsed) flow"
where
  "iter 0 tokens gc = Continue gc"
| "iter (Suc n) tokens gc =
     (case step tokens gc of
        Return r \<Rightarrow> Return r
      | Continue gc' \<Rightarrow> iter n tokens gc')"

definition built :: "mapOrder \<Rightarrow> nat \<Rightarrow> 'v Rule list \<Rightarrow> 'v Grammar" where
  "built mo n rules =
     (case Build mo n (NewGrammar rules) of
        Some (Inr (gr, e)) \<Rightarrow> gr
      | _ \<Rightarrow> NewGrammar rules)"

definition buildError :: "mapOrder \<Rightarrow> nat \<Rightarrow> 'v Rule list \<Rightarrow> (panic + error option) option" where
  "buildError mo n rules = map_option (map_sum id snd) (Build mo n (NewGrammar rules))"

definition initLocals :: "'v Grammar \<Rightarrow> 'v locals" where
  "initLocals gr =
     (case initState gr of
        None \<Rightarrow> \<lparr>stack = [], st = State [], states = [], cursor = 0\<rparr>
      | Some s0 \<Rightarrow> \<lparr>stack = [], st = s0, states = [s0], cursor = 0\<rparr>)"

definition mkToken :: "int \<Rightarrow> string \<Rightarrow> goToken" where
  "mkToken k s = \<lparr>tok = k, tokText = s, pos_Line = 1, pos_Column = 1\<rparr>"

section \<open>Example grammars and inputs\<close>

definition identToken :: "string \<Rightarrow> goToken" where
  "identToken s = mkToken scanner_Ident s"

definition eofToken :: goToken where
  "eofToken = mkToken scanner_EOF []"

text \<open>A token of the other kind: \<open>tok\<close> is the character itself.\<close>

definition plusToken :: goToken where
  "plusToken = mkToken 43 ''+''"

text \<open>\<open>0 -> "a"\<close> twice: the state after \<open>"a"\<close> holds two complete items.\<close>

definition conflictRules :: "int Rule list" where
  "conflictRules =
     [\<lparr>Lhs = ''0'', Rhs = [SymT (Match ''a'')], Builder = (\<lambda>xs. Inr (AValue 0))\<rparr>,
      \<lparr>Lhs = ''0'', Rhs = [SymT (Match ''a'')], Builder = (\<lambda>xs. Inr (AValue 1))\<rparr>]"

text \<open>\<open>0 -> "a" 0\<close> and \<open>0 -> "b"\<close>: the start marker is used as a non-terminal.\<close>

definition nestedRules :: "int Rule list" where
  "nestedRules =
     [\<lparr>Lhs = ''0'', Rhs = [SymT (Match ''a''), SymN (NonTerminal ''0'')],
       Builder = (\<lambda>xs. Inr (AValue 0))\<rparr>,
      \<lparr>Lhs = ''0'', Rhs = [SymT (Match ''b'')], Builder = (\<lambda>xs. Inr (AValue 1))\<rparr>]"

text \<open>Token sequences for \<open>nestedRules\<close>.\<close>

definition nestedTokens :: "goToken list" where
  "nestedTokens = [identToken ''a'', identToken ''b'', eofToken]"

definition danglingTokens :: "goToken list" where
  "danglingTokens = [identToken ''b'']"

definition shortTokens :: "goToken list" where
  "shortTokens = [identToken ''b'', eofToken]"

section \<open>Supporting lemmas: running the parser\<close>

lemma iter_parseLoop_Continue:
  "iter n tokens gc = Continue gc' \<Longrightarrow> parseLoop tokens gc = parseLoop tokens gc'"
proof (induction n arbitrary: gc)
  case 0
  then show ?case by simp
next
  case (Suc n)
  then show ?case
    by (cases "step tokens gc") (auto simp: parseLoop.simps[of tokens gc])
qed

lemma iter_parseLoop_Return:
  "iter n tokens gc = Return r \<Longrightarrow> parseLoop tokens gc = Some r"
proof (induction n arbitrary: gc)
  case 0
  then show ?case by simp
next
  case (Suc n)
  then show ?case
    by (cases "step tokens gc") (auto simp: parseLoop.simps[of tokens gc])
qed

lemma Parse_initLocals:
  "initState gr = Some s0 \<Longrightarrow> Parse gr tokens = parseLoop tokens (gr, initLocals gr)"
  by (simp add: Parse_def initLocals_def)

lemma buildError_built:
  "buildError mo n rules = Some (Inr e) \<Longrightarrow>
   Build mo n (NewGrammar rules) = Some (Inr (built mo n rules, e))"
  by (auto simp: buildError_def built_def split: option.splits sum.splits)

lemma dispatched_step:
  "dispatched tokens (gr, c) = Some act \<Longrightarrow>
   step tokens (gr, c) = perform gr c (tokens ! cursor c) act"
  by (auto simp: dispatched_def step_def split: if_splits option.splits sum.splits prod.splits)

lemma step_gr: "step tokens (gr, c) = Continue (gr', c') \<Longrightarrow> gr' = gr"
  by (auto simp: step_def perform_def Let_def
      split: if_splits option.splits sum.splits action.splits prod.splits)

lemma step_gr_Return: "step tokens (gr, c) = Return (gr', r) \<Longrightarrow> gr' = gr"
  by (auto simp: step_def perform_def Let_def
      split: if_splits option.splits sum.splits action.splits prod.splits)

lemma parseLoop_gr: "parseLoop tokens gc = Some y \<Longrightarrow> fst y = fst gc"
proof (induction rule: parseLoop.raw_induct[rotated 1, consumes 1, case_names it])
  case (it parseLoop tokens gc y)
  show ?case
  proof (cases "step tokens gc")
    case (Continue gc')
    with it have "fst y = fst gc'" by simp
    moreover from Continue have "fst gc' = fst gc"
      using step_gr[of tokens "fst gc" "snd gc" "fst gc'" "snd gc'"] by simp
    ultimately show ?thesis by simp
  next
    case (Return r)
    with it have "y = r" by simp
    with Return show ?thesis
      using step_gr_Return[of tokens "fst gc" "snd gc" "fst r" "snd r"] by simp
  qed
qed

(*CLAIMS*)
section \<open>Token classification\<close>

text \<open>
  C5. \<open>terminalFromToken\<close> maps an identifier token to \<open>Match\<close> of its text with the
  identifier flag set, an end-of-input token to \<open>EOF\<close> without the flag, and a token of the
  other kind to \<open>Match\<close> of its text without the flag. For a token of kind integer, float,
  string, raw string or character it panics; no token has the kind \<open>KindMatch\<close>, so these
  are all the cases. (For a quoted kind whose text is shorter than two bytes the panic is the
  one of \<open>Text\<close>, raised while the message is built.)
\<close>

theorem terminalFromToken_by_kind:
  "(Kind tk = KindIdent \<longrightarrow> terminalFromToken tk = Inr (Match (tokText tk), True)) \<and>
   (Kind tk = KindEOF \<longrightarrow> terminalFromToken tk = Inr (EOF, False)) \<and>
   (Kind tk = KindOther \<longrightarrow> terminalFromToken tk = Inr (Match (tokText tk), False)) \<and>
   (Kind tk \<in> {KindInt, KindFloat} \<longrightarrow> terminalFromToken tk = Inl (CouldntConvertToken tk)) \<and>
   (Kind tk \<in> {KindString, KindRawString, KindChar} \<longrightarrow>
      terminalFromToken tk =
        Inl (if length (tokText tk) < 2 then SliceBoundsOutOfRange
             else CouldntConvertToken tk)) \<and>
   Kind tk \<noteq> KindMatch"
  by (auto simp: terminalFromToken_def Kind_def Text_def isQuoted_def Is_defs scanner_defs
      split: if_splits)

theorem terminalFromToken_by_kind_witness:
  "terminalFromToken (identToken ''x'') = Inr (Match ''x'', True) \<and>
   terminalFromToken eofToken = Inr (EOF, False) \<and>
   terminalFromToken plusToken = Inr (Match ''+'', False) \<and>
   terminalFromToken (mkToken scanner_Int ''1'') = Inl (CouldntConvertToken (mkToken scanner_Int ''1'')) \<and>
   terminalFromToken (mkToken scanner_Char ''0a0'') =
     Inl (CouldntConvertToken (mkToken scanner_Char ''0a0''))"
proof -
  have k: "Kind (identToken ''x'') = KindIdent" "Kind eofToken = KindEOF"
    "Kind plusToken = KindOther" "Kind (mkToken scanner_Int ''1'') \<in> {KindInt, KindFloat}"
    "Kind (mkToken scanner_Char ''0a0'') \<in> {KindString, KindRawString, KindChar}"
    by (simp_all add: Kind_def Is_defs scanner_defs identToken_def eofToken_def plusToken_def
        mkToken_def)
  have t: "tokText (identToken ''x'') = ''x''" "tokText plusToken = ''+''"
    "\<not> length (tokText (mkToken scanner_Char ''0a0'')) < 2"
    by (simp_all add: identToken_def plusToken_def mkToken_def)
  from k t
    terminalFromToken_by_kind[of "identToken ''x''"]
    terminalFromToken_by_kind[of eofToken]
    terminalFromToken_by_kind[of plusToken]
    terminalFromToken_by_kind[of "mkToken scanner_Int ''1''"]
    terminalFromToken_by_kind[of "mkToken scanner_Char ''0a0''"]
  show ?thesis by presburger
qed

section \<open>The parsing engine\<close>

text \<open>
  C10. \<open>Parse\<close> does not check its token sequence: on the empty sequence it panics with an
  index out of range in the first iteration, for every grammar, and so does every iteration
  that starts with the cursor at or past the end of the tokens.
\<close>

theorem Parse_reads_past_the_tokens:
  "Parse gr [] = Some (gr, Inl IndexOutOfRange) \<and>
   (length tokens \<le> cursor c \<longrightarrow> parseLoop tokens (gr, c) = Some (gr, Inl IndexOutOfRange))"
  by (auto simp: Parse_def parseLoop.simps[of _ "(gr, _)"] step_def split: option.splits)

theorem Parse_reads_past_the_tokens_witness:
  "Parse (built insertionOrder 3 nestedRules) [] =
     Some (built insertionOrder 3 nestedRules, Inl IndexOutOfRange) \<and>
   map_option snd (Parse (built insertionOrder 3 nestedRules) danglingTokens) =
     Some (Inl IndexOutOfRange)"
proof -
  let ?g = "built insertionOrder 3 nestedRules"
  have "initState ?g \<noteq> None" by code_simp
  then obtain s0 where "initState ?g = Some s0" by auto
  then have p: "Parse ?g danglingTokens = parseLoop danglingTokens (?g, initLocals ?g)"
    by (rule Parse_initLocals)
  have "case iter 1 danglingTokens (?g, initLocals ?g) of
          Continue gc \<Rightarrow> length danglingTokens \<le> cursor (snd gc)
        | Return x \<Rightarrow> False"
    by code_simp
  then obtain gc where gc: "iter 1 danglingTokens (?g, initLocals ?g) = Continue gc"
    "length danglingTokens \<le> cursor (snd gc)"
    by (auto split: flow.splits)
  from Parse_reads_past_the_tokens[of ?g danglingTokens "snd gc"] have "Parse ?g [] = Some (?g, Inl IndexOutOfRange)" by simp
  moreover
  from gc(2) Parse_reads_past_the_tokens[of "fst gc" danglingTokens "snd gc"]
  have "parseLoop danglingTokens gc = Some (fst gc, Inl IndexOutOfRange)" by simp
  with p iter_parseLoop_Continue[OF gc(1)]
  have "map_option snd (Parse ?g danglingTokens) = Some (Inl IndexOutOfRange)" by simp
  ultimately show ?thesis by simp
qed

text \<open>
  C8. \<open>Parse\<close> leaves the grammar as it found it: whatever the call returns (a value, an
  error or a panic), the grammar after the call is the grammar before it, in every field.
\<close>

theorem Parse_leaves_grammar: "Parse gr tokens = Some (gr', r) \<Longrightarrow> gr' = gr"
  using parseLoop_gr[of tokens "(gr, _)" "(gr', r)"]
  by (auto simp: Parse_def split: option.splits)

theorem Parse_leaves_grammar_witness:
  "Parse (built insertionOrder 3 nestedRules) nestedTokens =
     Some (built insertionOrder 3 nestedRules, Inl CorruptedSymbolStack)"
proof -
  let ?g = "built insertionOrder 3 nestedRules"
  have "map_option snd (Parse ?g nestedTokens) = Some (Inl CorruptedSymbolStack)"
    by code_simp
  then obtain g' where g': "Parse ?g nestedTokens = Some (g', Inl CorruptedSymbolStack)"
    by auto
  from Parse_leaves_grammar[OF this] g' show ?thesis by simp
qed

text \<open>
  C2, as amended. When an iteration switches on a reduce action for a rule whose left-hand
  side is \<open>"0"\<close>, \<open>Parse\<close> ends in that iteration. It returns the value the builder made
  exactly when the attribute stack held just the values the rule consumes, so that the new
  value is alone on the stack; with more values on the stack it panics with
  "corrupted symbol stack" (with fewer, the slice expression panics, and a panic of the
  builder is passed on).
\<close>

theorem reduce_of_start_marker:
  assumes "dispatched tokens (gr, c) = Some (reduce r)" and "Lhs r = ''0''"
  shows "parseLoop tokens (gr, c) =
           Some (gr,
             if length (stack c) < length (Rhs r) then Inl SliceBoundsOutOfRange
             else
               (case Builder r (drop (length (stack c) - length (Rhs r)) (stack c)) of
                  Inl p \<Rightarrow> Inl p
                | Inr v \<Rightarrow>
                    if length (stack c) = length (Rhs r) then Inr (Inr v)
                    else Inl CorruptedSymbolStack))"
  using dispatched_step[OF assms(1)] assms(2)
  by (auto simp: parseLoop.simps[of tokens "(gr, c)"] perform_def Let_def split: sum.splits)

theorem reduce_of_start_marker_witness:
  "map_option snd (Parse (built insertionOrder 3 nestedRules) shortTokens) =
     Some (Inr (Inr (AValue 1)))"
proof -
  let ?g = "built insertionOrder 3 nestedRules"
  have "initState ?g \<noteq> None" by code_simp
  then obtain s0 where "initState ?g = Some s0" by auto
  then have p: "Parse ?g shortTokens = parseLoop shortTokens (?g, initLocals ?g)"
    by (rule Parse_initLocals)
  have "case iter 1 shortTokens (?g, initLocals ?g) of
          Continue gc \<Rightarrow>
            (case dispatched shortTokens gc of
               Some (reduce r) \<Rightarrow>
                 Lhs r = ''0'' \<and> length (Rhs r) = 1 \<and> length (stack (snd gc)) = 1 \<and>
                 Builder r (stack (snd gc)) = Inr (AValue 1)
             | _ \<Rightarrow> False)
        | Return x \<Rightarrow> False"
    by code_simp
  then obtain gr c r where gc: "iter 1 shortTokens (?g, initLocals ?g) = Continue (gr, c)"
    and d: "dispatched shortTokens (gr, c) = Some (reduce r)"
    and r: "Lhs r = ''0''" "length (Rhs r) = 1" "length (stack c) = 1"
      "Builder r (stack c) = Inr (AValue 1)"
    by (auto split: flow.splits option.splits action.splits)
  from reduce_of_start_marker[OF d r(1)] r(2-)
  have "parseLoop shortTokens (gr, c) = Some (gr, Inr (Inr (AValue 1)))" by simp
  with p iter_parseLoop_Continue[OF gc] show ?thesis by simp
qed

text \<open>
  C2 as stated fails: for the rules \<open>0 -> "a" 0\<close> and \<open>0 -> "b"\<close>, \<open>Build\<close> returns no error,
  and on the tokens \<open>a b EOF\<close> the third iteration switches on the reduce action of
  \<open>0 -> "b"\<close> with two values on the stack; the builder makes its value, and \<open>Parse\<close>
  panics instead of returning it.
\<close>

theorem reduce_of_start_marker_counterexample:
  "buildError insertionOrder 3 nestedRules = Some (Inr None) \<and>
   (case iter 2 nestedTokens
           (built insertionOrder 3 nestedRules, initLocals (built insertionOrder 3 nestedRules)) of
      Continue gc \<Rightarrow>
        (case dispatched nestedTokens gc of
           Some (reduce r) \<Rightarrow>
             Lhs r = ''0'' \<and> length (Rhs r) = 1 \<and> length (stack (snd gc)) = 2 \<and>
             Builder r (drop 1 (stack (snd gc))) = Inr (AValue 1)
         | _ \<Rightarrow> False)
    | Return x \<Rightarrow> False) \<and>
   map_option snd (Parse (built insertionOrder 3 nestedRules) nestedTokens) =
     Some (Inl CorruptedSymbolStack)"
  by code_simp

section \<open>Conflicts\<close>

text \<open>
  C1 at the rules \<open>0 -> "a"\<close>, \<open>0 -> "a"\<close>. The initial state has no complete item; its
  transition over \<open>"a"\<close> leads to a state with two complete items, which \<open>addState\<close>
  registers and for which it returns the error, but the caller drops that error: \<open>Build\<close>
  returns no error and the automaton keeps the shift into the conflicting state.
\<close>

theorem conflict_after_shift_not_reported:
  "buildError insertionOrder 2 conflictRules = Some (Inr None) \<and>
   stateTerminals conflictRules (State [Item 0 0, Item 1 0]) =
     Inr [(Match ''a'', State [Item 0 1, Item 1 1])] \<and>
   map_sum id length (reductions conflictRules (State [Item 0 1, Item 1 1])) = Inr 2 \<and>
   initState (built insertionOrder 2 conflictRules) = Some (State [Item 0 0, Item 1 0]) \<and>
   (case actions (built insertionOrder 2 conflictRules) (State [Item 0 0, Item 1 0]) of
      Some a \<Rightarrow> (case a (Match ''a'') of Some (shift s) \<Rightarrow> s = State [Item 0 1, Item 1 1] | _ \<Rightarrow> False)
    | None \<Rightarrow> False)"
  by code_simp

end
